theory Spec2Isabelle
  imports Complex_Main "HOL-Library.Multiset"
begin

section \<open>The DEF/EVD survival calculator of main.py\<close>

text \<open>
  Python's integers are unbounded, so every integer of the program is an \<open>int\<close>.
  A dice roll (a tuple of the source) and a dice configuration are \<open>int list\<close>s.
  An exception that leaves a function is the \<open>Inl\<close> branch of a sum type.

  The source computes a probability with \<open>survival_count / total_outcomes\<close>, the true
  division of two integers: it raises ZeroDivisionError on a zero divisor and otherwise
  returns the double nearest to the exact quotient. The model keeps the exact quotient as a
  \<open>rat\<close>. Rounding is a monotone function of the exact quotient, so an equation between two
  exact quotients is an equation between the two doubles as well.
\<close>

datatype py_error = ZeroDivisionError | ValueError

subsection \<open>Damage resolvers\<close>

definition calculate_def_damage :: "int \<Rightarrow> int \<Rightarrow> int list \<Rightarrow> int" where
  "calculate_def_damage attack_power def_value dice_rolls =
     (let total_dice = sum_list dice_rolls;
          damage = attack_power - def_value - total_dice
      in max 1 damage)"

definition calculate_evd_damage :: "int \<Rightarrow> int \<Rightarrow> int list \<Rightarrow> int" where
  "calculate_evd_damage attack_power evd_value dice_rolls =
     (let total_dice = sum_list dice_rolls
      in if evd_value + total_dice > attack_power then 0 else attack_power)"

subsection \<open>Combination generator\<close>

text \<open>\<open>range(a, b)\<close> of Python on integers: \<open>a, a + 1, ..., b - 1\<close>, empty when \<open>b \<le> a\<close>.\<close>

definition py_range :: "int \<Rightarrow> int \<Rightarrow> int list" where
  "py_range a b = [a..b - 1]"

text \<open>
  \<open>itertools.product(*pools)\<close>, as the library documents it: start from the single empty
  tuple and, pool by pool, extend every partial tuple by every element of the pool
  (\<open>result = [x + [y] for x in result for y in pool]\<close>).
\<close>

definition product_step :: "'a list list \<Rightarrow> 'a list \<Rightarrow> 'a list list" where
  "product_step result pool = concat (map (\<lambda>x. map (\<lambda>y. x @ [y]) pool) result)"

definition itertools_product :: "'a list list \<Rightarrow> 'a list list" where
  "itertools_product pools = foldl product_step [[]] pools"

definition generate_dice_combinations :: "int list \<Rightarrow> int list list" where
  "generate_dice_combinations dice_config =
     (let dice_ranges = map (\<lambda>faces. py_range 1 (faces + 1)) dice_config
      in itertools_product dice_ranges)"

subsection \<open>Probability aggregator\<close>

text \<open>
  The \<open>for\<close> loop of \<open>calculate_survival_probability\<close>, with the counter
  \<open>survival_count\<close> as accumulator.
\<close>

fun survival_loop :: "int \<Rightarrow> int \<Rightarrow> int \<Rightarrow> int \<Rightarrow> bool \<Rightarrow> int list list \<Rightarrow> int \<Rightarrow> int" where
  "survival_loop current_hp attack_power def_value evd_value use_def [] survival_count =
     survival_count"
| "survival_loop current_hp attack_power def_value evd_value use_def (dice_combo # rest)
     survival_count =
     (let dice_rolls = dice_combo;
          damage = (if use_def then calculate_def_damage attack_power def_value dice_rolls
                    else calculate_evd_damage attack_power evd_value dice_rolls)
      in survival_loop current_hp attack_power def_value evd_value use_def rest
           (if current_hp > damage then survival_count + 1 else survival_count))"

text \<open>True division of two integers.\<close>

definition py_truediv :: "int \<Rightarrow> int \<Rightarrow> py_error + rat" where
  "py_truediv a b = (if b = 0 then Inl ZeroDivisionError else Inr (of_int a / of_int b))"

definition calculate_survival_probability ::
  "int \<Rightarrow> int \<Rightarrow> int \<Rightarrow> int \<Rightarrow> bool \<Rightarrow> int list \<Rightarrow> py_error + rat" where
  "calculate_survival_probability current_hp attack_power def_value evd_value use_def
     dice_config =
     (let dice_combinations = generate_dice_combinations dice_config;
          total_outcomes = int (length dice_combinations);
          survival_count = survival_loop current_hp attack_power def_value evd_value use_def
                             dice_combinations 0
      in py_truediv survival_count total_outcomes)"

subsection \<open>Recommendation\<close>

text \<open>
  The three strings the source returns as recommendation: \<open>DEF\<close>, \<open>EVD\<close> and the
  string for equal chances, which starts with \<open>DEF/EVD\<close>.
\<close>

datatype recommendation = DEF | EVD | DEF_EVD_same

text \<open>The \<open>if\<close>/\<open>elif\<close>/\<open>else\<close> chain of \<open>analyze_best_choice\<close>.\<close>

definition recommend :: "rat \<Rightarrow> rat \<Rightarrow> recommendation" where
  "recommend def_probability evd_probability =
     (if def_probability > evd_probability then DEF
      else if evd_probability > def_probability then EVD
      else DEF_EVD_same)"

definition analyze_best_choice ::
  "int \<Rightarrow> int \<Rightarrow> int \<Rightarrow> int \<Rightarrow> int list \<Rightarrow> py_error + (recommendation \<times> rat \<times> rat)" where
  "analyze_best_choice current_hp attack_power def_value evd_value dice_config =
     (case calculate_survival_probability current_hp attack_power def_value evd_value True
             dice_config of
        Inl err \<Rightarrow> Inl err
      | Inr def_probability \<Rightarrow>
          (case calculate_survival_probability current_hp attack_power def_value evd_value
                  False dice_config of
             Inl err \<Rightarrow> Inl err
           | Inr evd_probability \<Rightarrow>
               Inr (recommend def_probability evd_probability,
                    def_probability, evd_probability)))"

subsection \<open>Parsing layer\<close>

text \<open>
  The input strings are taken to be ASCII. \<open>py_isspace\<close> is the whitespace that
  \<open>str.strip()\<close> and \<open>str.split()\<close> remove: the codes 9 to 13 and 28 to 32.
\<close>

definition py_isspace :: "char \<Rightarrow> bool" where
  "py_isspace c = (let n = (of_char c :: nat) in (9 \<le> n \<and> n \<le> 13) \<or> (28 \<le> n \<and> n \<le> 32))"

definition py_strip :: "string \<Rightarrow> string" where
  "py_strip s = rev (dropWhile py_isspace (rev (dropWhile py_isspace s)))"

text \<open>\<open>s.split(sep)\<close> for a separator of one character: every separator cuts.\<close>

fun py_split_sep :: "char \<Rightarrow> string \<Rightarrow> string list" where
  "py_split_sep sep [] = [[]]"
| "py_split_sep sep (c # cs) =
     (if c = sep then [] # py_split_sep sep cs
      else (case py_split_sep sep cs of
              [] \<Rightarrow> [[c]]
            | p # ps \<Rightarrow> (c # p) # ps))"

text \<open>
  \<open>s.split()\<close>: the maximal runs of characters that are not whitespace. The word being
  read is kept reversed in \<open>cur\<close>.
\<close>

fun py_split_ws_from :: "string \<Rightarrow> string \<Rightarrow> string list" where
  "py_split_ws_from cur [] = (if cur = [] then [] else [rev cur])"
| "py_split_ws_from cur (c # cs) =
     (if py_isspace c
      then (if cur = [] then py_split_ws_from [] cs else rev cur # py_split_ws_from [] cs)
      else py_split_ws_from (c # cur) cs)"

definition py_split_ws :: "string \<Rightarrow> string list" where
  "py_split_ws s = py_split_ws_from [] s"

text \<open>
  \<open>int(s)\<close> on an ASCII string: whitespace around is dropped, then an optional sign, then
  decimal digits, where one underscore may stand between two digits. Anything else raises
  ValueError.
\<close>

definition is_digit :: "char \<Rightarrow> bool" where
  "is_digit c = (let n = (of_char c :: nat) in 48 \<le> n \<and> n \<le> 57)"

definition digit_val :: "char \<Rightarrow> int" where
  "digit_val c = int (of_char c) - 48"

fun digits_value :: "int \<Rightarrow> string \<Rightarrow> int option" where
  "digits_value acc [] = Some acc"
| "digits_value acc (c # cs) =
     (if is_digit c then digits_value (10 * acc + digit_val c) cs
      else if c = CHR ''_'' \<and> cs \<noteq> [] \<and> is_digit (hd cs) then digits_value acc cs
      else None)"

definition py_int :: "string \<Rightarrow> py_error + int" where
  "py_int s =
     (let t = py_strip s;
          negative = (t \<noteq> [] \<and> hd t = CHR ''-'');
          body = (if t \<noteq> [] \<and> (hd t = CHR ''-'' \<or> hd t = CHR ''+'') then tl t else t)
      in if body \<noteq> [] \<and> is_digit (hd body)
         then (case digits_value 0 body of
                 None \<Rightarrow> Inl ValueError
               | Some v \<Rightarrow> Inr (if negative then - v else v))
         else Inl ValueError)"

text \<open>The comprehension \<open>[int(x) for x in xs]\<close>: the first failing conversion raises.\<close>

fun int_each :: "string list \<Rightarrow> py_error + int list" where
  "int_each [] = Inr []"
| "int_each (x # xs) =
     (case py_int x of
        Inl err \<Rightarrow> Inl err
      | Inr v \<Rightarrow> (case int_each xs of Inl err \<Rightarrow> Inl err | Inr vs \<Rightarrow> Inr (v # vs)))"

text \<open>The validation loop of \<open>parse_dice_config\<close>.\<close>

fun check_faces :: "int list \<Rightarrow> py_error + unit" where
  "check_faces [] = Inr ()"
| "check_faces (faces # rest) = (if faces < 1 then Inl ValueError else check_faces rest)"

text \<open>The body of the \<open>try\<close> block of \<open>parse_dice_config\<close>.\<close>

definition parse_dice_config_try :: "string \<Rightarrow> py_error + int list" where
  "parse_dice_config_try dice_str =
     (case int_each (map py_strip (py_split_sep CHR '','' dice_str)) of
        Inl err \<Rightarrow> Inl err
      | Inr dice_config \<Rightarrow>
          (case check_faces dice_config of
             Inl err \<Rightarrow> Inl err
           | Inr _ \<Rightarrow> Inr dice_config))"

text \<open>\<open>except ValueError\<close> answers the default, any other exception passes.\<close>

definition parse_dice_config :: "string \<Rightarrow> py_error + int list" where
  "parse_dice_config dice_str =
     (if py_strip dice_str = [] then Inr [6]
      else (case parse_dice_config_try dice_str of
              Inl ValueError \<Rightarrow> Inr [6]
            | Inl err \<Rightarrow> Inl err
            | Inr dice_config \<Rightarrow> Inr dice_config))"

definition parse_quick_input :: "string \<Rightarrow> py_error + (int \<times> int \<times> int \<times> int \<times> int list)" where
  "parse_quick_input args_str =
     (let parts = (if CHR '','' \<in> set args_str
                   then map py_strip (py_split_sep CHR '','' args_str)
                   else map py_strip (filter (\<lambda>x. py_strip x \<noteq> []) (py_split_ws args_str)))
      in if length parts < 4 then Inl ValueError
         else
          (case py_int (parts ! 0) of Inl err \<Rightarrow> Inl err | Inr current_hp \<Rightarrow>
          (case py_int (parts ! 1) of Inl err \<Rightarrow> Inl err | Inr attack_power \<Rightarrow>
          (case py_int (parts ! 2) of Inl err \<Rightarrow> Inl err | Inr def_value \<Rightarrow>
          (case py_int (parts ! 3) of Inl err \<Rightarrow> Inl err | Inr evd_value \<Rightarrow>
             (if length parts > 4
              then (case int_each (drop 4 parts) of
                      Inl err \<Rightarrow> Inl err
                    | Inr dice_config \<Rightarrow>
                        Inr (current_hp, attack_power, def_value, evd_value, dice_config))
              else Inr (current_hp, attack_power, def_value, evd_value, [6])))))))"

subsection \<open>The two callers of the core in \<open>main\<close>\<close>

text \<open>
  The \<open>-q\<close> branch of \<open>main\<close>: parse, then analyse. \<open>Inl\<close> is the exception that the
  branch's \<open>except Exception\<close> reports.
\<close>

definition quick_calculation :: "string \<Rightarrow> py_error + (recommendation \<times> rat \<times> rat)" where
  "quick_calculation quick =
     (case parse_quick_input quick of
        Inl err \<Rightarrow> Inl err
      | Inr (current_hp, attack_power, def_value, evd_value, dice_config) \<Rightarrow>
          analyze_best_choice current_hp attack_power def_value evd_value dice_config)"

text \<open>
  One round of the interactive loop in one-line input mode, for a stripped input line
  \<open>quick_input\<close> that is neither empty nor \<open>exit\<close>. The loop handles ValueError (and KeyboardInterrupt) only: the round
  ends with a result, with a message after which the loop goes on, or with an exception
  that leaves \<open>main\<close>.
\<close>

datatype round_result =
  Result recommendation rat rat
| Message
| Uncaught py_error

definition interactive_quick_round :: "string \<Rightarrow> round_result" where
  "interactive_quick_round quick_input =
     (case parse_quick_input quick_input of
        Inl ValueError \<Rightarrow> Message
      | Inl err \<Rightarrow> Uncaught err
      | Inr (current_hp, attack_power, def_value, evd_value, dice_config) \<Rightarrow>
          if current_hp \<le> 0 then Message
          else if attack_power \<le> 0 then Message
          else (case analyze_best_choice current_hp attack_power def_value evd_value
                       dice_config of
                  Inl ValueError \<Rightarrow> Message
                | Inl err \<Rightarrow> Uncaught err
                | Inr (recommendation, def_prob, evd_prob) \<Rightarrow>
                    Result recommendation def_prob evd_prob))"

section \<open>Properties\<close>

subsection \<open>The combination generator is the Cartesian product\<close>

lemma product_step_Nil: "product_step [] pool = []"
  by (simp add: product_step_def)

lemma product_step_Cons:
  "product_step (x # result) pool = map (\<lambda>y. x @ [y]) pool @ product_step result pool"
  by (simp add: product_step_def)

lemma concat_map_singleton_id: "concat (map (\<lambda>x. [x]) res) = res"
  by (induction res) auto

lemma extend_product_step:
  "concat (map (\<lambda>x. map ((@) x) tails) (product_step result pool)) =
   concat (map (\<lambda>x. map ((@) x) (concat (map (\<lambda>y. map (Cons y) tails) pool))) result)"
proof (induction result)
  case Nil
  show ?case by (simp add: product_step_Nil)
next
  case (Cons x result)
  have "concat (map (\<lambda>z. map ((@) z) tails) (map (\<lambda>y. x @ [y]) pool)) =
        map ((@) x) (concat (map (\<lambda>y. map (Cons y) tails) pool))"
    by (induction pool) (simp_all add: comp_def)
  with Cons show ?case
    by (simp add: product_step_Cons)
qed

lemma foldl_product_step:
  "foldl product_step result pools =
   concat (map (\<lambda>x. map ((@) x) (product_lists pools)) result)"
proof (induction pools arbitrary: result)
  case Nil
  show ?case by (simp add: concat_map_singleton_id)
next
  case (Cons pool pools)
  show ?case
    by (simp add: Cons.IH extend_product_step)
qed

lemma itertools_product_eq: "itertools_product pools = product_lists pools"
proof -
  have "map ((@) []) (product_lists pools) = product_lists pools"
    by (rule map_idI) simp
  then show ?thesis
    by (simp add: itertools_product_def foldl_product_step)
qed

lemma generate_dice_combinations_eq:
  "generate_dice_combinations dice_config = product_lists (map (\<lambda>faces. [1..faces]) dice_config)"
  by (simp add: generate_dice_combinations_def itertools_product_eq py_range_def)

lemma generate_dice_combinations_Nil: "generate_dice_combinations [] = [[]]"
  by (simp add: generate_dice_combinations_eq)

lemma generate_dice_combinations_Cons:
  "generate_dice_combinations (faces # rest) =
   concat (map (\<lambda>x. map (Cons x) (generate_dice_combinations rest)) [1..faces])"
  by (simp add: generate_dice_combinations_eq)

lemma length_generate_dice_combinations:
  "\<forall>faces \<in> set dice_config. 1 \<le> faces \<Longrightarrow>
   int (length (generate_dice_combinations dice_config)) = prod_list dice_config"
proof (induction dice_config)
  case Nil
  show ?case by (simp add: generate_dice_combinations_Nil)
next
  case (Cons faces rest)
  have "length (concat (map (\<lambda>x. map (Cons x) (generate_dice_combinations rest)) [1..faces])) =
        length [1..faces] * length (generate_dice_combinations rest)"
    by (induction "[1..faces]" arbitrary: faces) (simp_all add: length_concat comp_def sum_list_triv)
  with Cons show ?case
    by (simp add: generate_dice_combinations_Cons)
qed

lemma set_generate_dice_combinations:
  "set (generate_dice_combinations dice_config) =
   {combo. length combo = length dice_config \<and>
           (\<forall>i < length dice_config. 1 \<le> combo ! i \<and> combo ! i \<le> dice_config ! i)}"
  by (auto simp add: generate_dice_combinations_eq product_lists_set list_all2_conv_all_nth)

lemma distinct_generate_dice_combinations: "distinct (generate_dice_combinations dice_config)"
  unfolding generate_dice_combinations_eq
  by (rule distinct_product_lists) auto

lemma empty_generate_dice_combinations:
  "(generate_dice_combinations dice_config = []) = (\<exists>faces \<in> set dice_config. faces < 1)"
proof (induction dice_config)
  case Nil
  show ?case by (simp add: generate_dice_combinations_Nil)
next
  case (Cons faces rest)
  then show ?case
    by (auto simp add: generate_dice_combinations_Cons)
qed

lemma survival_loop_eq:
  "survival_loop current_hp attack_power def_value evd_value use_def combos survival_count =
   survival_count +
   int (length (filter (\<lambda>combo.
          (if use_def then calculate_def_damage attack_power def_value combo
           else calculate_evd_damage attack_power evd_value combo) < current_hp) combos))"
  by (induction combos arbitrary: survival_count) simp_all


subsection \<open>Counting survivors does not depend on the order of the dice\<close>

lemma count_generate_Cons:
  "length (filter (\<lambda>combo. P (sum_list combo)) (generate_dice_combinations (faces # rest))) =
   (\<Sum>x = 1..faces. length (filter (\<lambda>combo. P (x + sum_list combo))
                               (generate_dice_combinations rest)))"
proof -
  have "length (filter (\<lambda>combo. P (sum_list combo))
          (concat (map (\<lambda>x. map (Cons x) tails) xs))) =
        (\<Sum>x\<leftarrow>xs. length (filter (\<lambda>combo. P (x + sum_list combo)) tails))"
    for xs :: "int list" and tails
    by (induction xs) (simp_all add: filter_map comp_def)
  then show ?thesis
    by (simp add: generate_dice_combinations_Cons sum_list_distinct_conv_sum_set)
qed

lemma count_generate_swap:
  "length (filter (\<lambda>combo. P (sum_list combo)) (generate_dice_combinations (f # g # rest))) =
   length (filter (\<lambda>combo. P (sum_list combo)) (generate_dice_combinations (g # f # rest)))"
proof -
  have inner: "length (filter (\<lambda>combo. P (a + sum_list combo))
                 (generate_dice_combinations (b # rest))) =
               (\<Sum>y = 1..b. length (filter (\<lambda>combo. P (a + (y + sum_list combo)))
                 (generate_dice_combinations rest)))" for a b
    using count_generate_Cons [of "\<lambda>s. P (a + s)" b rest] by simp
  have "(\<Sum>x = 1..f. \<Sum>y = 1..g. length (filter (\<lambda>combo. P (x + (y + sum_list combo)))
            (generate_dice_combinations rest))) =
        (\<Sum>y = 1..g. \<Sum>x = 1..f. length (filter (\<lambda>combo. P (y + (x + sum_list combo)))
            (generate_dice_combinations rest)))"
    by (subst sum.swap) (simp add: add.left_commute)
  then show ?thesis
    by (simp only: count_generate_Cons [of P] inner)
qed

lemma count_generate_move_front:
  "length (filter (\<lambda>combo. P (sum_list combo)) (generate_dice_combinations (ys1 @ x # ys2))) =
   length (filter (\<lambda>combo. P (sum_list combo)) (generate_dice_combinations (x # ys1 @ ys2)))"
proof (induction ys1 arbitrary: P)
  case Nil
  show ?case by simp
next
  case (Cons y ys1)
  have step: "length (filter (\<lambda>combo. P (a + sum_list combo))
                (generate_dice_combinations (ys1 @ x # ys2))) =
              length (filter (\<lambda>combo. P (a + sum_list combo))
                (generate_dice_combinations (x # ys1 @ ys2)))" for a
    using Cons.IH [of "\<lambda>s. P (a + s)"] by simp
  have "length (filter (\<lambda>combo. P (sum_list combo))
          (generate_dice_combinations ((y # ys1) @ x # ys2))) =
        (\<Sum>a = 1..y. length (filter (\<lambda>combo. P (a + sum_list combo))
          (generate_dice_combinations (x # ys1 @ ys2))))"
    by (simp only: append_Cons count_generate_Cons [of P y] step)
  also have "\<dots> = length (filter (\<lambda>combo. P (sum_list combo))
          (generate_dice_combinations (y # x # ys1 @ ys2)))"
    by (simp only: count_generate_Cons [of P y])
  also have "\<dots> = length (filter (\<lambda>combo. P (sum_list combo))
          (generate_dice_combinations (x # y # ys1 @ ys2)))"
    by (rule count_generate_swap)
  finally show ?case by simp
qed

lemma count_generate_perm:
  "mset xs = mset ys \<Longrightarrow>
   length (filter (\<lambda>combo. P (sum_list combo)) (generate_dice_combinations xs)) =
   length (filter (\<lambda>combo. P (sum_list combo)) (generate_dice_combinations ys))"
proof (induction xs arbitrary: ys P)
  case Nil
  then show ?case by simp
next
  case (Cons x xs)
  from Cons.prems have "x \<in> set ys"
    by (metis list.set_intros(1) mset_eq_setD)
  then obtain ys1 ys2 where ys: "ys = ys1 @ x # ys2"
    by (auto simp add: in_set_conv_decomp)
  with Cons.prems have rest: "mset xs = mset (ys1 @ ys2)"
    by simp
  have step: "length (filter (\<lambda>combo. P (a + sum_list combo)) (generate_dice_combinations xs)) =
              length (filter (\<lambda>combo. P (a + sum_list combo))
                (generate_dice_combinations (ys1 @ ys2)))" for a
    using Cons.IH [OF rest, of "\<lambda>s. P (a + s)"] by simp
  have "length (filter (\<lambda>combo. P (sum_list combo)) (generate_dice_combinations (x # xs))) =
        (\<Sum>a = 1..x. length (filter (\<lambda>combo. P (a + sum_list combo))
          (generate_dice_combinations (ys1 @ ys2))))"
    by (simp only: count_generate_Cons [of P x] step)
  also have "\<dots> = length (filter (\<lambda>combo. P (sum_list combo))
          (generate_dice_combinations (x # ys1 @ ys2)))"
    by (simp only: count_generate_Cons [of P x])
  also have "\<dots> = length (filter (\<lambda>combo. P (sum_list combo))
          (generate_dice_combinations ys))"
    by (simp only: ys count_generate_move_front)
  finally show ?case .
qed

lemma length_generate_perm:
  "mset xs = mset ys \<Longrightarrow>
   length (generate_dice_combinations xs) = length (generate_dice_combinations ys)"
  using count_generate_perm [of xs ys "\<lambda>_. True"] by simp

lemma damage_by_sum:
  "((if use_def then calculate_def_damage attack_power def_value combo
     else calculate_evd_damage attack_power evd_value combo) < current_hp) =
   (\<lambda>s. (if use_def then max 1 (attack_power - def_value - s)
          else if evd_value + s > attack_power then 0 else attack_power) < current_hp)
   (sum_list combo)"
  by (simp add: calculate_def_damage_def calculate_evd_damage_def)

lemma survival_loop_perm:
  assumes "mset xs = mset ys"
  shows "survival_loop current_hp attack_power def_value evd_value use_def
           (generate_dice_combinations xs) 0 =
         survival_loop current_hp attack_power def_value evd_value use_def
           (generate_dice_combinations ys) 0"
  unfolding survival_loop_eq damage_by_sum
  using count_generate_perm [OF assms] by simp

lemma calculate_survival_probability_perm:
  assumes "mset xs = mset ys"
  shows "calculate_survival_probability current_hp attack_power def_value evd_value use_def xs =
         calculate_survival_probability current_hp attack_power def_value evd_value use_def ys"
  by (simp add: calculate_survival_probability_def Let_def
      survival_loop_perm [OF assms] length_generate_perm [OF assms])


subsection \<open>The parser of the dice prompt validates face counts\<close>

lemma py_int_error: "py_int s = Inl err \<Longrightarrow> err = ValueError"
  by (auto simp add: py_int_def Let_def split: if_splits option.splits)

lemma int_each_error: "int_each xs = Inl err \<Longrightarrow> err = ValueError"
  by (induction xs) (auto split: sum.splits dest: py_int_error)

lemma check_faces_error: "check_faces dice_config = Inl err \<Longrightarrow> err = ValueError"
  by (induction dice_config) (auto split: if_splits)

lemma check_faces_ok: "check_faces dice_config = Inr u \<Longrightarrow> \<forall>faces \<in> set dice_config. 1 \<le> faces"
  by (induction dice_config) (auto split: if_splits)

lemma parse_dice_config_try_cases:
  "parse_dice_config_try dice_str = Inl ValueError \<or>
   (\<exists>dice_config. parse_dice_config_try dice_str = Inr dice_config \<and>
      (\<forall>faces \<in> set dice_config. 1 \<le> faces))"
  by (auto simp add: parse_dice_config_try_def split: sum.splits
      dest: int_each_error check_faces_error check_faces_ok)

lemma parse_dice_config_validated:
  "\<exists>dice_config. parse_dice_config dice_str = Inr dice_config \<and>
     (\<forall>faces \<in> set dice_config. 1 \<le> faces)"
  using parse_dice_config_try_cases [of dice_str]
  by (auto simp add: parse_dice_config_def)

lemma parse_dice_config_zero: "parse_dice_config ''0'' = Inr [6]"
  by code_simp

section \<open>The claims\<close>

text \<open>
  C1. For every attack strength, flat-reduction stat and dice outcome, the flat-reduction
  resolver returns the maximum of 1 and attack strength minus stat minus the sum of the
  dice; so the damage is at least 1 for all integer inputs.
\<close>

theorem calculate_def_damage_contract:
  "calculate_def_damage attack_power def_value dice_rolls =
     max 1 (attack_power - def_value - sum_list dice_rolls) \<and>
   1 \<le> calculate_def_damage attack_power def_value dice_rolls"
  by (simp add: calculate_def_damage_def)

text \<open>
  C2. For every attack strength, evasion stat and dice outcome, the evasion resolver returns
  0 when the evasion stat plus the sum of the dice is strictly greater than the attack
  strength and the attack strength otherwise; its result is always 0 or the attack
  strength. For an attack strength other than 0 (the data model has it positive) the result
  is 0 exactly when the threshold is passed.
\<close>

theorem calculate_evd_damage_contract:
  "calculate_evd_damage attack_power evd_value dice_rolls =
     (if evd_value + sum_list dice_rolls > attack_power then 0 else attack_power) \<and>
   (calculate_evd_damage attack_power evd_value dice_rolls = 0 \<or>
    calculate_evd_damage attack_power evd_value dice_rolls = attack_power) \<and>
   (attack_power \<noteq> 0 \<longrightarrow>
      (calculate_evd_damage attack_power evd_value dice_rolls = 0) =
      (evd_value + sum_list dice_rolls > attack_power))"
  by (simp add: calculate_evd_damage_def)

theorem calculate_evd_damage_contract_witness:
  "(5::int) \<noteq> 0 \<and> calculate_evd_damage 5 1 [5] = 0 \<and> calculate_evd_damage 5 1 [4] = 5 \<and>
   (1::int) + sum_list [5] > 5 \<and> \<not> (1::int) + sum_list [4] > 5"
  using calculate_evd_damage_contract [of 5 1 "[5]"]
    calculate_evd_damage_contract [of 5 1 "[4]"]
  by simp

text \<open>
  C3. For a dice configuration whose face counts are all at least 1, and either resolver,
  the aggregator returns the number of generated outcomes whose damage is strictly less
  than the current hit points, divided by the number of generated outcomes. An outcome
  whose damage equals the hit points is not counted.
\<close>

theorem calculate_survival_probability_ratio:
  assumes "\<forall>faces \<in> set dice_config. 1 \<le> faces"
  shows "calculate_survival_probability current_hp attack_power def_value evd_value use_def
           dice_config =
         Inr (of_nat (length (filter (\<lambda>dice_combo.
                  (if use_def then calculate_def_damage attack_power def_value dice_combo
                   else calculate_evd_damage attack_power evd_value dice_combo) < current_hp)
                (generate_dice_combinations dice_config))) /
              of_nat (length (generate_dice_combinations dice_config)))"
proof -
  from assms have "generate_dice_combinations dice_config \<noteq> []"
    by (auto simp add: empty_generate_dice_combinations)
  then show ?thesis
    by (simp add: calculate_survival_probability_def Let_def py_truediv_def survival_loop_eq)
qed

theorem calculate_survival_probability_ratio_witness:
  "calculate_survival_probability 3 5 2 1 False [6] =
     Inr (of_nat (length (filter (\<lambda>dice_combo. calculate_evd_damage 5 1 dice_combo < 3)
            (generate_dice_combinations [6]))) /
          of_nat (length (generate_dice_combinations [6])))"
  using calculate_survival_probability_ratio [of "[6]" 3 5 2 1 False]
  by simp

text \<open>
  C4. For a dice configuration whose face counts are all at least 1, the generator returns
  the Cartesian product of the ranges from 1 to the face count: as many sequences as the
  product of the face counts, exactly the sequences that have at every position a value
  between 1 and that die's face count, and each of them once.
\<close>

theorem generate_dice_combinations_cartesian:
  assumes "\<forall>faces \<in> set dice_config. 1 \<le> faces"
  shows "int (length (generate_dice_combinations dice_config)) = prod_list dice_config \<and>
         set (generate_dice_combinations dice_config) =
           {combo. length combo = length dice_config \<and>
                   (\<forall>i < length dice_config. 1 \<le> combo ! i \<and> combo ! i \<le> dice_config ! i)} \<and>
         distinct (generate_dice_combinations dice_config)"
  using length_generate_dice_combinations [OF assms]
    set_generate_dice_combinations [of dice_config]
    distinct_generate_dice_combinations [of dice_config]
  by simp

theorem generate_dice_combinations_cartesian_witness:
  "int (length (generate_dice_combinations [2, 3])) = prod_list [2, 3] \<and>
   generate_dice_combinations [2, 3] = [[1, 1], [1, 2], [1, 3], [2, 1], [2, 2], [2, 3]] \<and>
   distinct (generate_dice_combinations [2, 3])"
proof -
  have faces: "\<forall>faces \<in> set [2, 3 :: int]. 1 \<le> faces"
    by simp
  have combos: "generate_dice_combinations [2, 3] =
                  [[1, 1], [1, 2], [1, 3], [2, 1], [2, 2], [2, 3]]"
    by code_simp
  from generate_dice_combinations_cartesian [OF faces] combos show ?thesis
    by blast
qed

text \<open>
  C5. For every pair of probabilities the recommendation is DEF exactly when the DEF
  probability is strictly greater, EVD exactly when the EVD probability is strictly greater,
  and the tie exactly when the two are equal; and this is the recommendation that the
  analysis returns beside its two probabilities.
\<close>

theorem recommend_three_way:
  "(recommend def_probability evd_probability = DEF) = (def_probability > evd_probability) \<and>
   (recommend def_probability evd_probability = EVD) = (evd_probability > def_probability) \<and>
   (recommend def_probability evd_probability = DEF_EVD_same) =
     (def_probability = evd_probability) \<and>
   (analyze_best_choice current_hp attack_power def_value evd_value dice_config =
      Inr (choice, def_probability, evd_probability) \<longrightarrow>
    choice = recommend def_probability evd_probability)"
  by (auto simp add: recommend_def analyze_best_choice_def split: sum.splits)

theorem recommend_three_way_witness:
  "analyze_best_choice 3 5 2 1 [4] = Inr (DEF, 1, 0) \<and>
   recommend 1 0 = DEF \<and> (1 :: rat) > 0"
proof -
  have run: "analyze_best_choice 3 5 2 1 [4] = Inr (DEF, 1, 0)"
    by code_simp
  from recommend_three_way [of 1 0 3 5 2 1 "[4]" DEF] run show ?thesis
    by simp
qed

text \<open>
  C6. With hit points 3, attack 5, DEF 2, EVD 1 and one six-sided die, the analysis returns
  the DEF probability 1, the EVD probability 2/6 and the recommendation DEF.
\<close>

theorem analyze_best_choice_example:
  "analyze_best_choice 3 5 2 1 [6] = Inr (DEF, 1, 2 / 6)"
  by code_simp

text \<open>
  C7. The claim is that no input path lets a face count below 1 reach the core. The parser
  of the dice prompt keeps to it (\<open>parse_dice_config_validated\<close>). The parser of the
  one-line input does not validate: the input \<open>3,5,2,1,0\<close> yields the dice configuration
  \<open>[0]\<close>, the analysis divides by zero, and the interactive loop does not handle that
  exception.
\<close>

theorem parse_quick_input_face_count_unchecked:
  "parse_quick_input ''3,5,2,1,0'' = Inr (3, 5, 2, 1, [0]) \<and>
   quick_calculation ''3,5,2,1,0'' = Inl ZeroDivisionError \<and>
   interactive_quick_round ''3,5,2,1,0'' = Uncaught ZeroDivisionError"
  by code_simp

text \<open>
  C8. When every face count is at least 1, the generator returns at least one outcome and
  the aggregator returns a probability, whatever the other inputs are: the division is by a
  count of at least 1. When some face count is below 1, the generator returns no outcome
  and the aggregator fails with ZeroDivisionError.
\<close>

theorem calculate_survival_probability_total:
  "((\<forall>faces \<in> set dice_config. 1 \<le> faces) \<longrightarrow>
      1 \<le> length (generate_dice_combinations dice_config) \<and>
      (\<exists>p. calculate_survival_probability current_hp attack_power def_value evd_value use_def
              dice_config = Inr p)) \<and>
   ((\<exists>faces \<in> set dice_config. faces < 1) \<longrightarrow>
      generate_dice_combinations dice_config = [] \<and>
      calculate_survival_probability current_hp attack_power def_value evd_value use_def
        dice_config = Inl ZeroDivisionError)"
proof -
  have "generate_dice_combinations dice_config \<noteq> []"
    if "\<forall>faces \<in> set dice_config. 1 \<le> faces"
    using that by (auto simp add: empty_generate_dice_combinations)
  moreover have "generate_dice_combinations dice_config = []"
    if "\<exists>faces \<in> set dice_config. faces < 1"
    using that by (simp add: empty_generate_dice_combinations)
  ultimately show ?thesis
    by (auto simp add: calculate_survival_probability_def Let_def py_truediv_def
        Suc_le_eq)
qed

theorem calculate_survival_probability_total_witness:
  "1 \<le> length (generate_dice_combinations [6, 6]) \<and>
   (\<exists>p. calculate_survival_probability 10 8 0 0 True [6, 6] = Inr p) \<and>
   (\<exists>faces \<in> set [6, 0 :: int]. faces < 1) \<and>
   generate_dice_combinations [6, 0] = [] \<and>
   calculate_survival_probability 10 8 0 0 True [6, 0] = Inl ZeroDivisionError"
  using calculate_survival_probability_total [of "[6, 6]" 10 8 0 0 True]
    calculate_survival_probability_total [of "[6, 0]" 10 8 0 0 True]
  by simp

text \<open>
  C9. For a dice configuration whose face counts are all at least 1 and any permutation of
  it, the aggregator returns a probability, and the same one for both, for either resolver.
\<close>

theorem calculate_survival_probability_permutation:
  assumes "\<forall>faces \<in> set dice_config. 1 \<le> faces"
    and "mset permuted = mset dice_config"
  shows "\<exists>p. calculate_survival_probability current_hp attack_power def_value evd_value
                use_def dice_config = Inr p \<and>
              calculate_survival_probability current_hp attack_power def_value evd_value
                use_def permuted = Inr p"
proof -
  from assms(1) have "generate_dice_combinations dice_config \<noteq> []"
    by (auto simp add: empty_generate_dice_combinations)
  then obtain p where "calculate_survival_probability current_hp attack_power def_value
      evd_value use_def dice_config = Inr p"
    by (simp add: calculate_survival_probability_def Let_def py_truediv_def)
  with calculate_survival_probability_perm [OF assms(2)] show ?thesis
    by simp
qed

theorem calculate_survival_probability_permutation_witness:
  "mset [6, 4 :: int] = mset [4, 6] \<and>
   (\<exists>p. calculate_survival_probability 3 5 2 1 False [4, 6] = Inr p \<and>
        calculate_survival_probability 3 5 2 1 False [6, 4] = Inr p)"
proof -
  have perm: "mset [6, 4 :: int] = mset [4, 6]"
    by (simp add: add_mset_commute)
  have faces: "\<forall>faces \<in> set [4, 6 :: int]. 1 \<le> faces"
    by simp
  from calculate_survival_probability_permutation [OF faces perm, of 3 5 2 1 False]
    perm
  show ?thesis
    by blast
qed

text \<open>
  C10. With the DEF resolver selected the aggregator's result does not depend on the EVD
  stat, and with the EVD resolver selected it does not depend on the DEF stat.
\<close>

theorem calculate_survival_probability_unused_stat:
  "calculate_survival_probability current_hp attack_power def_value evd_value True
     dice_config =
   calculate_survival_probability current_hp attack_power def_value evd_value' True
     dice_config \<and>
   calculate_survival_probability current_hp attack_power def_value evd_value False
     dice_config =
   calculate_survival_probability current_hp attack_power def_value' evd_value False
     dice_config"
  by (simp add: calculate_survival_probability_def Let_def survival_loop_eq)

end
